theory Spec2Isabelle
  imports Main "HOL-Library.Sublist"
begin

section \<open>Data shapes of the host and of the delegated HTML service\<close>

text \<open>
  The bridge of \<^verbatim>\<open>html-template-language-service.ts\<close> moves values between the
  TypeScript host (\<^verbatim>\<open>ts.*\<close>) and the HTML language service (\<^verbatim>\<open>vscode.*\<close>).
  Interfaces become records, with the fields the bridge reads or writes.
  \<^verbatim>\<open>ts.LineAndCharacter\<close> and \<^verbatim>\<open>vscode.Position\<close> are structurally the same
  type and the source passes one for the other, so they share one record.
  JavaScript numbers that hold offsets, lines and columns are integers here;
  strings are lists of 8-bit code units.
\<close>

record LineAndCharacter =
  line :: int
  character :: int

record Range =
  range_start :: LineAndCharacter
  range_end :: LineAndCharacter

record TextSpan =
  span_start :: int
  span_length :: int

record TemplateContext =
  fileName :: string
  text' :: string
  toPosition :: "int \<Rightarrow> LineAndCharacter"
  toOffset :: "LineAndCharacter \<Rightarrow> int"

record TextDocument =
  uri :: string
  languageId :: string
  version :: int
  getText :: "unit \<Rightarrow> string"
  positionAt :: "int \<Rightarrow> LineAndCharacter"
  offsetAt :: "LineAndCharacter \<Rightarrow> int"
  lineCount :: int

text \<open>
  \<^verbatim>\<open>vscode.CompletionItemKind\<close> is a numeric enumeration of the language-server
  protocol; at run time a kind is a number, the \<^verbatim>\<open>switch\<close> compares numbers and
  \<^verbatim>\<open>item.kind ? _ : _\<close> tests the number for truthiness. The members the source names
  carry the protocol's numbers.
\<close>

type_synonym CompletionItemKind = int

definition CompletionItemKind_Text :: CompletionItemKind where
  "CompletionItemKind_Text = 1"
definition CompletionItemKind_Method :: CompletionItemKind where
  "CompletionItemKind_Method = 2"
definition CompletionItemKind_Function :: CompletionItemKind where
  "CompletionItemKind_Function = 3"
definition CompletionItemKind_Constructor :: CompletionItemKind where
  "CompletionItemKind_Constructor = 4"
definition CompletionItemKind_Field :: CompletionItemKind where
  "CompletionItemKind_Field = 5"
definition CompletionItemKind_Variable :: CompletionItemKind where
  "CompletionItemKind_Variable = 6"
definition CompletionItemKind_Class :: CompletionItemKind where
  "CompletionItemKind_Class = 7"
definition CompletionItemKind_Interface :: CompletionItemKind where
  "CompletionItemKind_Interface = 8"
definition CompletionItemKind_Module :: CompletionItemKind where
  "CompletionItemKind_Module = 9"
definition CompletionItemKind_Property :: CompletionItemKind where
  "CompletionItemKind_Property = 10"
definition CompletionItemKind_Unit :: CompletionItemKind where
  "CompletionItemKind_Unit = 11"
definition CompletionItemKind_Value :: CompletionItemKind where
  "CompletionItemKind_Value = 12"
definition CompletionItemKind_Enum :: CompletionItemKind where
  "CompletionItemKind_Enum = 13"
definition CompletionItemKind_Keyword :: CompletionItemKind where
  "CompletionItemKind_Keyword = 14"
definition CompletionItemKind_Snippet :: CompletionItemKind where
  "CompletionItemKind_Snippet = 15"
definition CompletionItemKind_Color :: CompletionItemKind where
  "CompletionItemKind_Color = 16"
definition CompletionItemKind_File :: CompletionItemKind where
  "CompletionItemKind_File = 17"
definition CompletionItemKind_Reference :: CompletionItemKind where
  "CompletionItemKind_Reference = 18"

text \<open>
  \<^verbatim>\<open>ts.ScriptElementKind\<close>: the members the bridge can produce (\<^verbatim>\<open>alias\<close> is
  written with a prime).
\<close>

datatype ScriptElementKind =
    unknown
  | memberFunctionElement
  | functionElement
  | constructorImplementationElement
  | variableElement
  | classElement
  | interfaceElement
  | moduleElement
  | memberVariableElement
  | constElement
  | enumElement
  | keyword
  | alias'

record CompletionItem =
  label :: string
  item_kind :: "CompletionItemKind option"
  detail :: "string option"
  documentation :: "string option"

record CompletionList =
  isIncomplete :: bool
  items :: "CompletionItem list"

record SymbolDisplayPart =
  part_text :: string
  part_kind :: string

typedecl JSDocTagInfo

record CompletionEntry =
  entry_name :: string
  entry_kindModifiers :: string
  entry_kind :: ScriptElementKind
  sortText :: string

record CompletionInfo =
  isGlobalCompletion :: bool
  isMemberCompletion :: bool
  isNewIdentifierLocation :: bool
  entries :: "CompletionEntry list"

record CompletionEntryDetails =
  details_name :: string
  details_kind :: ScriptElementKind
  details_kindModifiers :: string
  details_tags :: "JSDocTagInfo list"
  details_displayParts :: "SymbolDisplayPart list"
  details_documentation :: "SymbolDisplayPart list"

record QuickInfo =
  info_kind :: ScriptElementKind
  info_kindModifiers :: string
  info_textSpan :: TextSpan
  info_displayParts :: "SymbolDisplayPart list"
  info_documentation :: "SymbolDisplayPart list"
  info_tags :: "JSDocTagInfo list"

text \<open>
  \<^verbatim>\<open>hover.contents\<close> is a string, an object with a \<^verbatim>\<open>value\<close> field (a marked
  string with its language, or markup content with its kind), or an array of such.
\<close>

datatype HoverContents =
    PlainString string
  | ValueObject string string
  | ContentsArray "HoverContents list"

record Hover =
  hover_contents :: HoverContents
  hover_range :: "Range option"

record TextEdit =
  edit_range :: Range
  edit_newText :: string

record TextChange =
  change_span :: TextSpan
  change_newText :: string

record EditorSettings =
  settings_tabSize :: "int option"
  convertTabsToSpaces :: "bool option"

record FormatOptions =
  tabSize :: "int option"
  insertSpaces :: bool
  wrapLineLength :: int
  unformatted :: string
  contentUnformatted :: string
  indentInnerHtml :: bool
  preserveNewLines :: bool
  maxPreserveNewLines :: "int option"
  indentHandlebars :: bool
  endWithNewline :: bool
  extraLiners :: string
  wrapAttributes :: string

record TsHtmlPluginConfiguration =
  format_enabled :: bool

section \<open>The completion cache\<close>

definition arePositionsEqual :: "LineAndCharacter \<Rightarrow> LineAndCharacter \<Rightarrow> bool" where
  "arePositionsEqual left right \<longleftrightarrow>
     line left = line right \<and> character left = character right"

text \<open>The four private fields of \<^verbatim>\<open>CompletionsCache\<close>, each possibly undefined.\<close>

record CompletionsCache =
  cachedCompletionsFile :: "string option"
  cachedCompletionsPosition :: "LineAndCharacter option"
  cachedCompletionsContent :: "string option"
  completions :: "CompletionList option"

definition emptyCompletionsCache :: CompletionsCache where
  "emptyCompletionsCache =
     \<lparr>cachedCompletionsFile = None, cachedCompletionsPosition = None,
      cachedCompletionsContent = None, completions = None\<rparr>"

text \<open>
  A completion list and a position are objects, hence truthy exactly when defined;
  \<^verbatim>\<open>===\<close> between a string and a possibly undefined string holds when the latter is
  defined and equal.
\<close>

definition getCached ::
  "CompletionsCache \<Rightarrow> TemplateContext \<Rightarrow> LineAndCharacter \<Rightarrow> CompletionList option" where
  "getCached cache context position =
     (if completions cache \<noteq> None
         \<and> Some (fileName context) = cachedCompletionsFile cache
         \<and> (case cachedCompletionsPosition cache of
               None \<Rightarrow> False
             | Some cachedPosition \<Rightarrow> arePositionsEqual position cachedPosition)
         \<and> Some (text' context) = cachedCompletionsContent cache
      then completions cache
      else None)"

definition updateCached ::
  "CompletionsCache \<Rightarrow> TemplateContext \<Rightarrow> LineAndCharacter \<Rightarrow> CompletionList
     \<Rightarrow> CompletionsCache" where
  "updateCached cache context position completionList =
     cache\<lparr>cachedCompletionsFile := Some (fileName context),
           cachedCompletionsPosition := Some position,
           cachedCompletionsContent := Some (text' context),
           completions := Some completionList\<rparr>"

section \<open>Result translators\<close>

text \<open>\<^verbatim>\<open>text ? [{ text, kind: 'text' }] : []\<close>: undefined and the empty string are falsy.\<close>

definition toDisplayParts :: "string option \<Rightarrow> SymbolDisplayPart list" where
  "toDisplayParts t =
     (case t of
        None \<Rightarrow> []
      | Some s \<Rightarrow> if s = [] then [] else [\<lparr>part_text = s, part_kind = ''text''\<rparr>])"

text \<open>The \<^verbatim>\<open>switch\<close>, case by case in the order of the source.\<close>

definition translateionCompletionItemKind :: "CompletionItemKind \<Rightarrow> ScriptElementKind" where
  "translateionCompletionItemKind kind =
     (if kind = CompletionItemKind_Method then memberFunctionElement
      else if kind = CompletionItemKind_Function then functionElement
      else if kind = CompletionItemKind_Constructor then constructorImplementationElement
      else if kind = CompletionItemKind_Field \<or> kind = CompletionItemKind_Variable
        then variableElement
      else if kind = CompletionItemKind_Class then classElement
      else if kind = CompletionItemKind_Interface then interfaceElement
      else if kind = CompletionItemKind_Module then moduleElement
      else if kind = CompletionItemKind_Property then memberVariableElement
      else if kind = CompletionItemKind_Unit \<or> kind = CompletionItemKind_Value
        then constElement
      else if kind = CompletionItemKind_Enum then enumElement
      else if kind = CompletionItemKind_Keyword then keyword
      else if kind = CompletionItemKind_Color then constElement
      else if kind = CompletionItemKind_Reference then alias'
      else if kind = CompletionItemKind_File then moduleElement
      else if kind = CompletionItemKind_Snippet \<or> kind = CompletionItemKind_Text
        then unknown
      else unknown)"

text \<open>
  In both translations below, \<^verbatim>\<open>item.kind ? translateionCompletionItemKind(typescript,
  item.kind) : typescript.ScriptElementKind.unknown\<close> tests the kind for truthiness: an
  undefined kind and the number 0 are falsy.
\<close>

definition translateCompetionEntry :: "CompletionItem \<Rightarrow> CompletionEntry" where
  "translateCompetionEntry item =
     \<lparr>entry_name = label item,
      entry_kindModifiers = '''',
      entry_kind = (case item_kind item of
                      None \<Rightarrow> unknown
                    | Some kind \<Rightarrow>
                        if kind \<noteq> 0 then translateionCompletionItemKind kind else unknown),
      sortText = ''0''\<rparr>"

definition translateCompletionItemsToCompletionEntryDetails ::
  "CompletionItem \<Rightarrow> CompletionEntryDetails" where
  "translateCompletionItemsToCompletionEntryDetails item =
     \<lparr>details_name = label item,
      details_kind = (case item_kind item of
                        None \<Rightarrow> unknown
                      | Some kind \<Rightarrow>
                          if kind \<noteq> 0 then translateionCompletionItemKind kind else unknown),
      details_kindModifiers = ''declare'',
      details_tags = [],
      details_displayParts = toDisplayParts (detail item),
      details_documentation = toDisplayParts (documentation item)\<rparr>"

definition translateCompletionItemsToCompletionInfo :: "CompletionList \<Rightarrow> CompletionInfo" where
  "translateCompletionItemsToCompletionInfo completionList =
     \<lparr>isGlobalCompletion = False,
      isMemberCompletion = False,
      isNewIdentifierLocation = False,
      entries = map translateCompetionEntry (items completionList)\<rparr>"

section \<open>Regular expressions and string splitting\<close>

text \<open>
  The source matches the template text against \<^verbatim>\<open>/^\s*\n/\<close> and
  \<^verbatim>\<open>/\n\s*$/\<close> and splits it at \<^verbatim>\<open>/n/g\<close>. The fragment of ECMAScript
  regular expressions these need: a pattern is a sequence of atoms, an atom is the
  assertion \<^verbatim>\<open>^\<close> or \<^verbatim>\<open>$\<close> (no multiline flag: start and end of the input), one
  character of a class, or a greedy star over a class.
\<close>

datatype RegExpAtom =
    StartOfInput
  | EndOfInput
  | OneOf "char \<Rightarrow> bool"
  | GreedyStar "char \<Rightarrow> bool"

text \<open>
  \<open>matchHere atoms atStart s\<close> matches the pattern at the current position, where
  \<open>s\<close> is the rest of the input and \<open>atStart\<close> tells whether the position is 0;
  it returns the number of code units the match consumes. The greedy star first takes
  one more character and backtracks to taking none when the rest then fails, which is
  the order in which the backtracking matcher of ECMAScript tries the alternatives.
\<close>

fun matchHere :: "RegExpAtom list \<Rightarrow> bool \<Rightarrow> string \<Rightarrow> nat option" where
  "matchHere [] atStart s = Some 0"
| "matchHere (StartOfInput # atoms) atStart s =
     (if atStart then matchHere atoms atStart s else None)"
| "matchHere (EndOfInput # atoms) atStart s =
     (if s = [] then matchHere atoms atStart s else None)"
| "matchHere (OneOf cls # atoms) atStart [] = None"
| "matchHere (OneOf cls # atoms) atStart (c # s) =
     (if cls c then map_option Suc (matchHere atoms False s) else None)"
| "matchHere (GreedyStar cls # atoms) atStart [] = matchHere atoms atStart []"
| "matchHere (GreedyStar cls # atoms) atStart (c # s) =
     (if cls c
      then (case matchHere (GreedyStar cls # atoms) False s of
              Some n \<Rightarrow> Some (Suc n)
            | None \<Rightarrow> matchHere atoms atStart (c # s))
      else matchHere atoms atStart (c # s))"

text \<open>
  \<^verbatim>\<open>RegExp.prototype.exec\<close> without the sticky flag tries every start position from
  the left, the position after the last character included, and stops at the first
  match.
\<close>

fun searchFrom :: "RegExpAtom list \<Rightarrow> bool \<Rightarrow> string \<Rightarrow> string option" where
  "searchFrom atoms atStart [] = map_option (\<lambda>n. take n []) (matchHere atoms atStart [])"
| "searchFrom atoms atStart (c # rest) =
     (case matchHere atoms atStart (c # rest) of
        Some n \<Rightarrow> Some (take n (c # rest))
      | None \<Rightarrow> searchFrom atoms False rest)"

text \<open>
  \<^verbatim>\<open>text.match(re)\<close> for a regular expression without the global flag: the matched
  substring (element 0 of the result array), or nothing when there is no match.
\<close>

definition js_match :: "RegExpAtom list \<Rightarrow> string \<Rightarrow> string option" where
  "js_match atoms s = searchFrom atoms True s"

text \<open>
  The class \<^verbatim>\<open>\s\<close> on 8-bit code units: tab, line feed, vertical tab, form feed,
  carriage return, space and the no-break space.
\<close>

definition isWhiteSpace :: "char \<Rightarrow> bool" where
  "isWhiteSpace c \<longleftrightarrow>
     c = CHR 0x09 \<or> c = CHR 0x0A \<or> c = CHR 0x0B \<or> c = CHR 0x0C \<or> c = CHR 0x0D
       \<or> c = CHR 0x20 \<or> c = CHR 0xA0"

definition isLineFeed :: "char \<Rightarrow> bool" where
  "isLineFeed c \<longleftrightarrow> c = CHR 0x0A"

text \<open>\<^verbatim>\<open>/^\s*\n/\<close> and \<^verbatim>\<open>/\n\s*$/\<close>.\<close>

definition leadingRegExp :: "RegExpAtom list" where
  "leadingRegExp = [StartOfInput, GreedyStar isWhiteSpace, OneOf isLineFeed]"

definition trailingRegExp :: "RegExpAtom list" where
  "trailingRegExp = [OneOf isLineFeed, GreedyStar isWhiteSpace, EndOfInput]"

text \<open>
  \<^verbatim>\<open>contents.split(/n/g)\<close>: the pattern matches exactly the letter n, so the text is
  cut at every n; \<open>current\<close> is the segment being read.
\<close>

fun splitAt :: "char \<Rightarrow> string \<Rightarrow> string \<Rightarrow> string list" where
  "splitAt sep current [] = [current]"
| "splitAt sep current (c # s) =
     (if c = sep then current # splitAt sep [] s else splitAt sep (current @ [c]) s)"

definition js_split :: "char \<Rightarrow> string \<Rightarrow> string list" where
  "js_split sep s = splitAt sep [] s"

section \<open>The delegated service and the bridge object\<close>

text \<open>
  The HTML language service is an external library: a record of its four operations,
  over the type \<open>'h\<close> of parsed documents. The bridge keeps the service it obtained
  from \<^verbatim>\<open>getLanguageService()\<close> and its completion cache; \<open>serviceCalls\<close> records,
  in order, the calls the bridge makes to the delegated service.
\<close>

record 'h LanguageService =
  parseHTMLDocument :: "TextDocument \<Rightarrow> 'h"
  doComplete :: "TextDocument \<Rightarrow> LineAndCharacter \<Rightarrow> 'h \<Rightarrow> CompletionList"
  doHover :: "TextDocument \<Rightarrow> LineAndCharacter \<Rightarrow> 'h \<Rightarrow> Hover option"
  format :: "TextDocument \<Rightarrow> Range \<Rightarrow> FormatOptions \<Rightarrow> TextEdit list"

datatype 'h ServiceCall =
    ParseHTMLDocument TextDocument
  | DoComplete TextDocument LineAndCharacter 'h
  | DoHover TextDocument LineAndCharacter 'h
  | Format TextDocument Range FormatOptions

record 'h HtmlTemplateLanguageService =
  configuration :: TsHtmlPluginConfiguration
  htmlLanguageServiceField :: "'h LanguageService option"
  completionsCache :: CompletionsCache
  serviceCalls :: "'h ServiceCall list"

text \<open>The object as the constructor leaves it.\<close>

definition newHtmlTemplateLanguageService ::
  "TsHtmlPluginConfiguration \<Rightarrow> 'h HtmlTemplateLanguageService" where
  "newHtmlTemplateLanguageService config =
     \<lparr>configuration = config, htmlLanguageServiceField = None,
      completionsCache = emptyCompletionsCache, serviceCalls = []\<rparr>"

text \<open>
  The getter \<^verbatim>\<open>htmlLanguageService\<close>; \<open>getLanguageService\<close> is what the library's
  factory returns.
\<close>

definition htmlLanguageService ::
  "'h LanguageService \<Rightarrow> 'h HtmlTemplateLanguageService
     \<Rightarrow> 'h LanguageService \<times> 'h HtmlTemplateLanguageService" where
  "htmlLanguageService getLanguageService this =
     (case htmlLanguageServiceField this of
        None \<Rightarrow> (getLanguageService, this\<lparr>htmlLanguageServiceField := Some getLanguageService\<rparr>)
      | Some service \<Rightarrow> (service, this))"

definition recordCall ::
  "'h ServiceCall \<Rightarrow> 'h HtmlTemplateLanguageService \<Rightarrow> 'h HtmlTemplateLanguageService" where
  "recordCall call this = this\<lparr>serviceCalls := serviceCalls this @ [call]\<rparr>"

section \<open>The facade\<close>

definition toVsRange :: "TemplateContext \<Rightarrow> int \<Rightarrow> int \<Rightarrow> Range" where
  "toVsRange context start end' =
     \<lparr>range_start = toPosition context start, range_end = toPosition context end'\<rparr>"

definition toTsSpan :: "TemplateContext \<Rightarrow> Range \<Rightarrow> TextSpan" where
  "toTsSpan context range' =
     (let editStart = toOffset context (range_start range');
          editEnd = toOffset context (range_end range')
      in \<lparr>span_start = editStart, span_length = editEnd - editStart\<rparr>)"

definition createVirtualDocument :: "TemplateContext \<Rightarrow> TextDocument" where
  "createVirtualDocument context =
     (let contents = text' context
      in \<lparr>uri = ''untitled://embedded.html'',
          languageId = ''html'',
          version = 1,
          getText = (\<lambda>_. contents),
          positionAt = (\<lambda>offset. toPosition context offset),
          offsetAt = (\<lambda>p. toOffset context p),
          lineCount = int (length (js_split CHR ''n'' contents)) + 1\<rparr>)"

definition getCompletionItems ::
  "'h LanguageService \<Rightarrow> 'h HtmlTemplateLanguageService \<Rightarrow> TemplateContext
     \<Rightarrow> LineAndCharacter \<Rightarrow> CompletionList \<times> 'h HtmlTemplateLanguageService" where
  "getCompletionItems getLanguageService this context position =
     (case getCached (completionsCache this) context position of
        Some cached \<Rightarrow> (cached, this)
      | None \<Rightarrow>
          (let doc = createVirtualDocument context;
               (service1, this1) = htmlLanguageService getLanguageService this;
               htmlDoc = parseHTMLDocument service1 doc;
               this2 = recordCall (ParseHTMLDocument doc) this1;
               (service2, this3) = htmlLanguageService getLanguageService this2;
               completionList = doComplete service2 doc position htmlDoc;
               this4 = recordCall (DoComplete doc position htmlDoc) this3;
               this5 = this4\<lparr>completionsCache :=
                         updateCached (completionsCache this4) context position completionList\<rparr>;
               (service3, this6) = htmlLanguageService getLanguageService this5;
               result = doComplete service3 doc position htmlDoc;
               this7 = recordCall (DoComplete doc position htmlDoc) this6
           in (result, this7)))"

definition getCompletionsAtPosition ::
  "'h LanguageService \<Rightarrow> 'h HtmlTemplateLanguageService \<Rightarrow> TemplateContext
     \<Rightarrow> LineAndCharacter \<Rightarrow> CompletionInfo \<times> 'h HtmlTemplateLanguageService" where
  "getCompletionsAtPosition getLanguageService this context position =
     (let (completionList, this1) = getCompletionItems getLanguageService this context position
      in (translateCompletionItemsToCompletionInfo completionList, this1))"

definition getCompletionEntryDetails ::
  "'h LanguageService \<Rightarrow> 'h HtmlTemplateLanguageService \<Rightarrow> TemplateContext
     \<Rightarrow> LineAndCharacter \<Rightarrow> string
     \<Rightarrow> CompletionEntryDetails \<times> 'h HtmlTemplateLanguageService" where
  "getCompletionEntryDetails getLanguageService this context position name =
     (let (completionList, this1) = getCompletionItems getLanguageService this context position
      in (case find (\<lambda>x. label x = name) (items completionList) of
            None \<Rightarrow>
              \<lparr>details_name = name,
               details_kind = unknown,
               details_kindModifiers = '''',
               details_tags = [],
               details_displayParts = toDisplayParts (Some name),
               details_documentation = []\<rparr>
          | Some item \<Rightarrow> translateCompletionItemsToCompletionEntryDetails item,
          this1))"

text \<open>
  \<^verbatim>\<open>convertPart\<close> pushes onto the array \<open>contents\<close>; \<^verbatim>\<open>forEach\<close> visits the
  elements of an array from left to right.
\<close>

fun convertPart :: "HoverContents \<Rightarrow> SymbolDisplayPart list \<Rightarrow> SymbolDisplayPart list" where
  "convertPart (PlainString s) contents =
     contents @ [\<lparr>part_text = s, part_kind = ''unknown''\<rparr>]"
| "convertPart (ContentsArray parts) contents = fold convertPart parts contents"
| "convertPart (ValueObject tag v) contents =
     contents @ [\<lparr>part_text = v, part_kind = ''unknown''\<rparr>]"

definition translateHover :: "Hover \<Rightarrow> LineAndCharacter \<Rightarrow> TemplateContext \<Rightarrow> QuickInfo" where
  "translateHover hover position context =
     (let contents = convertPart (hover_contents hover) [];
          start = toOffset context
                    (case hover_range hover of
                       Some r \<Rightarrow> range_start r
                     | None \<Rightarrow> position)
      in \<lparr>info_kind = unknown,
          info_kindModifiers = '''',
          info_textSpan =
            \<lparr>span_start = start,
             span_length = (case hover_range hover of
                              Some r \<Rightarrow> toOffset context (range_end r) - start
                            | None \<Rightarrow> 1)\<rparr>,
          info_displayParts = [],
          info_documentation = contents,
          info_tags = []\<rparr>)"

definition getQuickInfoAtPosition ::
  "'h LanguageService \<Rightarrow> 'h HtmlTemplateLanguageService \<Rightarrow> TemplateContext
     \<Rightarrow> LineAndCharacter \<Rightarrow> QuickInfo option \<times> 'h HtmlTemplateLanguageService" where
  "getQuickInfoAtPosition getLanguageService this context position =
     (let doc = createVirtualDocument context;
          (service1, this1) = htmlLanguageService getLanguageService this;
          htmlDoc = parseHTMLDocument service1 doc;
          this2 = recordCall (ParseHTMLDocument doc) this1;
          (service2, this3) = htmlLanguageService getLanguageService this2;
          hover = doHover service2 doc position htmlDoc;
          this4 = recordCall (DoHover doc position htmlDoc) this3
      in (case hover of
            Some h \<Rightarrow> (Some (translateHover h position context), this4)
          | None \<Rightarrow> (None, this4)))"

text \<open>The style configuration the source passes to the formatter.\<close>

definition formatOptions :: "EditorSettings \<Rightarrow> FormatOptions" where
  "formatOptions settings =
     \<lparr>tabSize = settings_tabSize settings,
      insertSpaces = (case convertTabsToSpaces settings of Some b \<Rightarrow> b | None \<Rightarrow> False),
      wrapLineLength = 120,
      unformatted = '''',
      contentUnformatted = ''pre,code,textarea'',
      indentInnerHtml = False,
      preserveNewLines = True,
      maxPreserveNewLines = None,
      indentHandlebars = False,
      endWithNewline = False,
      extraLiners = ''head, body, /html'',
      wrapAttributes = ''auto''\<rparr>"

definition getFormattingEditsForRange ::
  "'h LanguageService \<Rightarrow> 'h HtmlTemplateLanguageService \<Rightarrow> TemplateContext
     \<Rightarrow> int \<Rightarrow> int \<Rightarrow> EditorSettings
     \<Rightarrow> TextChange list \<times> 'h HtmlTemplateLanguageService" where
  "getFormattingEditsForRange getLanguageService this context start end' settings =
     (if \<not> format_enabled (configuration this) then ([], this)
      else
        (let doc = createVirtualDocument context;
             (service1, this1) = htmlLanguageService getLanguageService this;
             htmlDoc = parseHTMLDocument service1 doc;
             this2 = recordCall (ParseHTMLDocument doc) this1;
             leading = js_match leadingRegExp (text' context);
             start1 = (case leading of
                         Some m \<Rightarrow> start + int (length m)
                       | None \<Rightarrow> start);
             trailing = js_match trailingRegExp (text' context);
             end1 = (case trailing of
                       Some m \<Rightarrow> end' - int (length m)
                     | None \<Rightarrow> end')
         in if end1 \<le> start1 then ([], this2)
            else
              (let range' = toVsRange context start1 end1;
                   (service2, this3) = htmlLanguageService getLanguageService this2;
                   edits = format service2 doc range' (formatOptions settings);
                   this4 = recordCall (Format doc range' (formatOptions settings)) this3
               in (map (\<lambda>vsedit.
                          \<lparr>change_span = toTsSpan context (edit_range vsedit),
                           change_newText = edit_newText vsedit\<rparr>) edits,
                   this4))))"

section \<open>The documented tables and runs\<close>

text \<open>
  The kind table as the specification lists it: method, function, constructor, field and
  variable to variable, class, interface, module, property, unit and value to const,
  enum, keyword, color to const, reference to alias, file to module; every other kind
  to the unknown default.
\<close>

definition specKindTable :: "(CompletionItemKind \<times> ScriptElementKind) list" where
  "specKindTable =
     [(CompletionItemKind_Method, memberFunctionElement),
      (CompletionItemKind_Function, functionElement),
      (CompletionItemKind_Constructor, constructorImplementationElement),
      (CompletionItemKind_Field, variableElement),
      (CompletionItemKind_Variable, variableElement),
      (CompletionItemKind_Class, classElement),
      (CompletionItemKind_Interface, interfaceElement),
      (CompletionItemKind_Module, moduleElement),
      (CompletionItemKind_Property, memberVariableElement),
      (CompletionItemKind_Unit, constElement),
      (CompletionItemKind_Value, constElement),
      (CompletionItemKind_Enum, enumElement),
      (CompletionItemKind_Keyword, keyword),
      (CompletionItemKind_Color, constElement),
      (CompletionItemKind_Reference, alias'),
      (CompletionItemKind_File, moduleElement)]"

definition specKindMapping :: "CompletionItemKind \<Rightarrow> ScriptElementKind" where
  "specKindMapping kind =
     (case map_of specKindTable kind of Some element \<Rightarrow> element | None \<Rightarrow> unknown)"

text \<open>
  The runs the formatter's range is trimmed by, as the specification words them: a
  leading run is a non-empty stretch of white space at the very beginning of the text
  that ends in a line feed; a trailing run is a line feed followed by white space only,
  up to the very end of the text.
\<close>

definition isLeadingRun :: "string \<Rightarrow> string \<Rightarrow> bool" where
  "isLeadingRun run s \<longleftrightarrow>
     run \<noteq> [] \<and> prefix run s \<and> list_all isWhiteSpace run \<and> last run = CHR 0x0A"

definition isTrailingRun :: "string \<Rightarrow> string \<Rightarrow> bool" where
  "isTrailingRun run s \<longleftrightarrow>
     run \<noteq> [] \<and> suffix run s \<and> hd run = CHR 0x0A \<and> list_all isWhiteSpace (tl run)"

section \<open>Concrete inputs\<close>

text \<open>
  A template context that reads every offset as a column of line 0, an HTML service
  that answers from the text of the document, a filled cache, and two bridge objects as
  the constructor leaves them, with formatting enabled and disabled.
\<close>

definition exampleContext :: "string \<Rightarrow> string \<Rightarrow> TemplateContext" where
  "exampleContext file contents =
     \<lparr>fileName = file, text' = contents,
      toPosition = (\<lambda>offset. \<lparr>line = 0, character = offset\<rparr>),
      toOffset = (\<lambda>p. character p)\<rparr>"

definition exampleCache :: CompletionsCache where
  "exampleCache =
     \<lparr>cachedCompletionsFile = Some ''a.ts'',
      cachedCompletionsPosition = Some \<lparr>line = 0, character = 1\<rparr>,
      cachedCompletionsContent = Some ''<p>'',
      completions = Some \<lparr>isIncomplete = False, items = []\<rparr>\<rparr>"

definition exampleService :: "string LanguageService" where
  "exampleService =
     \<lparr>parseHTMLDocument = (\<lambda>doc. getText doc ()),
      doComplete = (\<lambda>doc position htmlDoc.
        \<lparr>isIncomplete = False,
         items = [\<lparr>label = ''div'', item_kind = Some CompletionItemKind_Property,
                   detail = Some ''element'', documentation = None\<rparr>,
                  \<lparr>label = htmlDoc, item_kind = None,
                   detail = None, documentation = None\<rparr>]\<rparr>),
      doHover = (\<lambda>doc position htmlDoc.
        if htmlDoc = [] then None
        else Some \<lparr>hover_contents = PlainString htmlDoc,
                   hover_range =
                     (if character position = 0 then None
                      else Some \<lparr>range_start = position,
                                 range_end = position\<lparr>character := character position + 3\<rparr>\<rparr>)\<rparr>),
      format = (\<lambda>doc range' options. [\<lparr>edit_range = range', edit_newText = ''<p>x</p>''\<rparr>])\<rparr>"

definition exampleThis :: "string HtmlTemplateLanguageService" where
  "exampleThis = newHtmlTemplateLanguageService \<lparr>format_enabled = True\<rparr>"

definition exampleItem :: CompletionItem where
  "exampleItem = \<lparr>label = ''<p>'', item_kind = None, detail = None, documentation = None\<rparr>"

definition exampleDisabled :: "string HtmlTemplateLanguageService" where
  "exampleDisabled = newHtmlTemplateLanguageService \<lparr>format_enabled = False\<rparr>"

definition exampleSettings :: EditorSettings where
  "exampleSettings = \<lparr>settings_tabSize = Some 4, convertTabsToSpaces = Some True\<rparr>"

section \<open>Basic facts\<close>

lemmas CompletionItemKind_defs =
  CompletionItemKind_Text_def CompletionItemKind_Method_def CompletionItemKind_Function_def
  CompletionItemKind_Constructor_def CompletionItemKind_Field_def
  CompletionItemKind_Variable_def CompletionItemKind_Class_def CompletionItemKind_Interface_def
  CompletionItemKind_Module_def CompletionItemKind_Property_def CompletionItemKind_Unit_def
  CompletionItemKind_Value_def CompletionItemKind_Enum_def CompletionItemKind_Keyword_def
  CompletionItemKind_Snippet_def CompletionItemKind_Color_def CompletionItemKind_File_def
  CompletionItemKind_Reference_def

lemma getCached_Some_iff:
  "getCached cache context position = Some result \<longleftrightarrow>
     completions cache = Some result
     \<and> cachedCompletionsFile cache = Some (fileName context)
     \<and> (\<exists>p. cachedCompletionsPosition cache = Some p \<and> arePositionsEqual position p)
     \<and> cachedCompletionsContent cache = Some (text' context)"
  by (auto simp: getCached_def split: option.splits)

lemma htmlLanguageService_eq:
  "htmlLanguageService gls this =
     (fst (htmlLanguageService gls this),
      this\<lparr>htmlLanguageServiceField := Some (fst (htmlLanguageService gls this))\<rparr>)"
  by (simp add: htmlLanguageService_def split: option.splits)

lemma getCompletionItems_hit:
  "getCached (completionsCache this) context position = Some cached \<Longrightarrow>
     getCompletionItems gls this context position = (cached, this)"
  by (simp add: getCompletionItems_def)

lemma getCompletionItems_miss:
  assumes "getCached (completionsCache this) context position = None"
  shows "getCompletionItems gls this context position =
     (doComplete (fst (htmlLanguageService gls this)) (createVirtualDocument context) position
        (parseHTMLDocument (fst (htmlLanguageService gls this)) (createVirtualDocument context)),
      this\<lparr>htmlLanguageServiceField := Some (fst (htmlLanguageService gls this)),
           completionsCache := updateCached (completionsCache this) context position
             (doComplete (fst (htmlLanguageService gls this)) (createVirtualDocument context) position
               (parseHTMLDocument (fst (htmlLanguageService gls this)) (createVirtualDocument context))),
           serviceCalls := serviceCalls this @
             [ParseHTMLDocument (createVirtualDocument context),
              DoComplete (createVirtualDocument context) position
                (parseHTMLDocument (fst (htmlLanguageService gls this)) (createVirtualDocument context)),
              DoComplete (createVirtualDocument context) position
                (parseHTMLDocument (fst (htmlLanguageService gls this)) (createVirtualDocument context))]\<rparr>)"
  using assms
  by (simp add: getCompletionItems_def htmlLanguageService_def recordCall_def Let_def
      split: option.splits)

lemma getCompletionsAtPosition_eq:
  "getCompletionsAtPosition gls this context position =
     (translateCompletionItemsToCompletionInfo (fst (getCompletionItems gls this context position)),
      snd (getCompletionItems gls this context position))"
  by (simp add: getCompletionsAtPosition_def split_def Let_def)

lemma getCompletionEntryDetails_eq:
  "getCompletionEntryDetails gls this context position name =
     (case find (\<lambda>x. label x = name) (items (fst (getCompletionItems gls this context position))) of
        None \<Rightarrow>
          \<lparr>details_name = name, details_kind = unknown, details_kindModifiers = '''',
           details_tags = [], details_displayParts = toDisplayParts (Some name),
           details_documentation = []\<rparr>
      | Some item \<Rightarrow> translateCompletionItemsToCompletionEntryDetails item,
      snd (getCompletionItems gls this context position))"
  by (simp add: getCompletionEntryDetails_def split_def Let_def)

lemma getQuickInfoAtPosition_eq:
  "getQuickInfoAtPosition gls this context position =
     (map_option (\<lambda>h. translateHover h position context)
        (doHover (fst (htmlLanguageService gls this)) (createVirtualDocument context) position
           (parseHTMLDocument (fst (htmlLanguageService gls this)) (createVirtualDocument context))),
      this\<lparr>htmlLanguageServiceField := Some (fst (htmlLanguageService gls this)),
           serviceCalls := serviceCalls this @
             [ParseHTMLDocument (createVirtualDocument context),
              DoHover (createVirtualDocument context) position
                (parseHTMLDocument (fst (htmlLanguageService gls this)) (createVirtualDocument context))]\<rparr>)"
  by (simp add: getQuickInfoAtPosition_def htmlLanguageService_def recordCall_def Let_def
      split: option.splits)

lemma length_splitAt: "length (splitAt sep current s) = Suc (count_list s sep)"
  by (induction s arbitrary: current) auto

lemmas example_defs =
  exampleThis_def exampleItem_def exampleService_def exampleContext_def
  newHtmlTemplateLanguageService_def emptyCompletionsCache_def

lemmas facade_defs =
  getCompletionItems_def getCached_def updateCached_def htmlLanguageService_def recordCall_def
  createVirtualDocument_def

lemma example_getCompletionItems:
  "fst (getCompletionItems exampleService exampleThis (exampleContext ''a.ts'' ''<p>'')
          \<lparr>line = 0, character = 1\<rparr>)
   = \<lparr>isIncomplete = False,
      items = [\<lparr>label = ''div'', item_kind = Some CompletionItemKind_Property,
                detail = Some ''element'', documentation = None\<rparr>, exampleItem]\<rparr>"
  by (simp add: example_defs facade_defs Let_def)

section \<open>The cache lookup\<close>

text \<open>
  Claim C2. For every cache state and every request, \<open>getCached\<close> returns the stored
  completion result only if the file name of the request equals the cached file, its
  position equals the cached position in line and in character, and its text equals
  the cached text; when one of the three comparisons fails, \<open>getCached\<close> returns
  nothing.
\<close>

theorem getCached_hit_requires_equal_key:
  "(getCached cache context position = Some result \<longrightarrow>
      completions cache = Some result
      \<and> cachedCompletionsFile cache = Some (fileName context)
      \<and> (\<exists>p. cachedCompletionsPosition cache = Some p
             \<and> line position = line p \<and> character position = character p)
      \<and> cachedCompletionsContent cache = Some (text' context))
   \<and> (\<not> (cachedCompletionsFile cache = Some (fileName context)
          \<and> (\<exists>p. cachedCompletionsPosition cache = Some p
                 \<and> line position = line p \<and> character position = character p)
          \<and> cachedCompletionsContent cache = Some (text' context)) \<longrightarrow>
       getCached cache context position = None)"
  by (auto simp: getCached_def arePositionsEqual_def split: option.splits)

theorem getCached_hit_requires_equal_key_witness:
  "getCached exampleCache (exampleContext ''a.ts'' ''<p>'') \<lparr>line = 0, character = 1\<rparr>
     = Some \<lparr>isIncomplete = False, items = []\<rparr>
   \<and> cachedCompletionsFile exampleCache = Some (fileName (exampleContext ''a.ts'' ''<p>''))
   \<and> cachedCompletionsContent exampleCache = Some (text' (exampleContext ''a.ts'' ''<p>''))
   \<and> getCached exampleCache (exampleContext ''b.ts'' ''<p>'') \<lparr>line = 0, character = 1\<rparr> = None
   \<and> getCached exampleCache (exampleContext ''a.ts'' ''<p>'') \<lparr>line = 0, character = 2\<rparr> = None
   \<and> getCached exampleCache (exampleContext ''a.ts'' ''<p>x'') \<lparr>line = 0, character = 1\<rparr> = None"
  using
    getCached_hit_requires_equal_key [of exampleCache "exampleContext ''a.ts'' ''<p>''"
      "\<lparr>line = 0, character = 1\<rparr>" "\<lparr>isIncomplete = False, items = []\<rparr>"]
    getCached_hit_requires_equal_key [of exampleCache "exampleContext ''b.ts'' ''<p>''"
      "\<lparr>line = 0, character = 1\<rparr>"]
    getCached_hit_requires_equal_key [of exampleCache "exampleContext ''a.ts'' ''<p>''"
      "\<lparr>line = 0, character = 2\<rparr>"]
    getCached_hit_requires_equal_key [of exampleCache "exampleContext ''a.ts'' ''<p>x''"
      "\<lparr>line = 0, character = 1\<rparr>"]
  by (simp add: exampleCache_def exampleContext_def getCached_def arePositionsEqual_def)

section \<open>The result translators\<close>

text \<open>
  Claim C3. The mapping from completion item kinds to host element kinds is a total
  function that agrees with the documented table (method, function, constructor, field
  and variable to variable, class, interface, module, property, unit and value to
  const, enum, keyword, color to const, reference to alias, file to module); for every
  kind the table does not list, snippet and plain text among them, it returns the
  unknown default.
\<close>

theorem kind_mapping_matches_table:
  "translateionCompletionItemKind kind = specKindMapping kind
   \<and> distinct (map fst specKindTable)
   \<and> (kind \<notin> fst ` set specKindTable \<longrightarrow> translateionCompletionItemKind kind = unknown)
   \<and> CompletionItemKind_Snippet \<notin> fst ` set specKindTable
   \<and> CompletionItemKind_Text \<notin> fst ` set specKindTable
   \<and> translateionCompletionItemKind CompletionItemKind_Snippet = unknown
   \<and> translateionCompletionItemKind CompletionItemKind_Text = unknown"
  by (simp add: translateionCompletionItemKind_def specKindMapping_def specKindTable_def
      CompletionItemKind_defs)

theorem kind_mapping_matches_table_witness:
  "19 \<notin> fst ` set specKindTable \<and> translateionCompletionItemKind 19 = unknown
   \<and> translateionCompletionItemKind 2 = memberFunctionElement"
  using kind_mapping_matches_table [of 19] kind_mapping_matches_table [of 2]
  by (simp add: specKindMapping_def specKindTable_def CompletionItemKind_defs)

text \<open>
  Claim C9. The translation of plain text to display parts is total: a non-empty string
  gives the one-element sequence that carries the string tagged as generic text; an
  absent or empty string gives the empty sequence.
\<close>

theorem toDisplayParts_total:
  "(s \<noteq> [] \<longrightarrow> toDisplayParts (Some s) = [\<lparr>part_text = s, part_kind = ''text''\<rparr>])
   \<and> toDisplayParts (Some []) = []
   \<and> toDisplayParts None = []"
  by (simp add: toDisplayParts_def)

theorem toDisplayParts_total_witness:
  "toDisplayParts (Some ''div'') = [\<lparr>part_text = ''div'', part_kind = ''text''\<rparr>]"
  using toDisplayParts_total [of "''div''"] by simp

text \<open>
  Claim C10. For every completion item whose kind field is absent, the completion-entry
  translation (used by \<open>getCompletionsAtPosition\<close>) and the completion-entry-details
  translation (used by \<open>getCompletionEntryDetails\<close>) both assign the unknown element
  kind: the conditional on the kind takes its else branch and the kind table is not
  consulted.
\<close>

theorem absent_kind_gives_unknown:
  assumes "item_kind item = None"
  shows "entry_kind (translateCompetionEntry item) = unknown
    \<and> details_kind (translateCompletionItemsToCompletionEntryDetails item) = unknown
    \<and> (item \<in> set (items (fst (getCompletionItems gls this context position))) \<longrightarrow>
         translateCompetionEntry item
           \<in> set (entries (fst (getCompletionsAtPosition gls this context position))))
    \<and> (find (\<lambda>x. label x = name) (items (fst (getCompletionItems gls this context position)))
          = Some item \<longrightarrow>
         details_kind (fst (getCompletionEntryDetails gls this context position name)) = unknown)"
proof -
  have "entry_kind (translateCompetionEntry item) = unknown"
    using assms by (simp add: translateCompetionEntry_def)
  moreover have "details_kind (translateCompletionItemsToCompletionEntryDetails item) = unknown"
    using assms by (simp add: translateCompletionItemsToCompletionEntryDetails_def)
  moreover have "entries (fst (getCompletionsAtPosition gls this context position))
      = map translateCompetionEntry (items (fst (getCompletionItems gls this context position)))"
    by (simp add: getCompletionsAtPosition_eq translateCompletionItemsToCompletionInfo_def)
  ultimately show ?thesis
    by (simp add: getCompletionEntryDetails_eq)
qed

theorem absent_kind_gives_unknown_witness:
  "item_kind exampleItem = None
   \<and> entry_kind (translateCompetionEntry exampleItem) = unknown
   \<and> details_kind (translateCompletionItemsToCompletionEntryDetails exampleItem) = unknown
   \<and> translateCompetionEntry exampleItem
       \<in> set (entries (fst (getCompletionsAtPosition exampleService exampleThis
                (exampleContext ''a.ts'' ''<p>'') \<lparr>line = 0, character = 1\<rparr>)))
   \<and> details_kind (fst (getCompletionEntryDetails exampleService exampleThis
         (exampleContext ''a.ts'' ''<p>'') \<lparr>line = 0, character = 1\<rparr> ''<p>'')) = unknown"
  using absent_kind_gives_unknown [of exampleItem exampleService exampleThis
      "exampleContext ''a.ts'' ''<p>''" "\<lparr>line = 0, character = 1\<rparr>" "''<p>''"]
  by (simp add: example_getCompletionItems) (simp add: exampleItem_def)

section \<open>Completion details and hover\<close>

text \<open>
  Claim C7. For every name that is not the label of any completion item of the current
  completion list, \<open>getCompletionEntryDetails\<close> does not fail: it returns a detail
  record whose name is the given name and whose kind is the unknown element kind.
\<close>

theorem missing_completion_detail:
  assumes "\<forall>x \<in> set (items (fst (getCompletionItems gls this context position))). label x \<noteq> name"
  shows "details_name (fst (getCompletionEntryDetails gls this context position name)) = name
    \<and> details_kind (fst (getCompletionEntryDetails gls this context position name)) = unknown
    \<and> fst (getCompletionEntryDetails gls this context position name) =
        \<lparr>details_name = name, details_kind = unknown, details_kindModifiers = '''',
         details_tags = [], details_displayParts = toDisplayParts (Some name),
         details_documentation = []\<rparr>"
proof -
  have "find (\<lambda>x. label x = name) (items (fst (getCompletionItems gls this context position))) = None"
    using assms by (simp add: find_None_iff)
  then show ?thesis by (simp add: getCompletionEntryDetails_eq)
qed

theorem missing_completion_detail_witness:
  "details_name (fst (getCompletionEntryDetails exampleService exampleThis
       (exampleContext ''a.ts'' ''<p>'') \<lparr>line = 0, character = 1\<rparr> ''span'')) = ''span''
   \<and> details_kind (fst (getCompletionEntryDetails exampleService exampleThis
       (exampleContext ''a.ts'' ''<p>'') \<lparr>line = 0, character = 1\<rparr> ''span'')) = unknown"
  using missing_completion_detail [of exampleService exampleThis
      "exampleContext ''a.ts'' ''<p>''" "\<lparr>line = 0, character = 1\<rparr>" "''span''"]
  by (simp add: example_getCompletionItems) (simp add: exampleItem_def)

text \<open>
  Claim C6. For every hover result the delegated service returns: when the hover carries
  a range, the text span of the quick info starts at the offset of the start of the range
  and its length is the offset of the end of the range minus the offset of its start;
  when the hover carries no range, the span starts at the offset of the query position
  and has length exactly 1.
\<close>

theorem hover_text_span:
  assumes "doHover (fst (htmlLanguageService gls this)) (createVirtualDocument context) position
      (parseHTMLDocument (fst (htmlLanguageService gls this)) (createVirtualDocument context))
      = Some hover"
  shows "fst (getQuickInfoAtPosition gls this context position)
      = Some (translateHover hover position context)
    \<and> (\<forall>r. hover_range hover = Some r \<longrightarrow>
          span_start (info_textSpan (translateHover hover position context))
            = toOffset context (range_start r)
          \<and> span_length (info_textSpan (translateHover hover position context))
            = toOffset context (range_end r) - toOffset context (range_start r))
    \<and> (hover_range hover = None \<longrightarrow>
          span_start (info_textSpan (translateHover hover position context))
            = toOffset context position
          \<and> span_length (info_textSpan (translateHover hover position context)) = 1)"
  using assms by (simp add: getQuickInfoAtPosition_eq translateHover_def Let_def)

theorem hover_text_span_witness:
  "info_textSpan (the (fst (getQuickInfoAtPosition exampleService exampleThis
       (exampleContext ''a.ts'' ''<p>'') \<lparr>line = 0, character = 2\<rparr>)))
     = \<lparr>span_start = 2, span_length = 3\<rparr>
   \<and> info_textSpan (the (fst (getQuickInfoAtPosition exampleService exampleThis
       (exampleContext ''a.ts'' ''<p>'') \<lparr>line = 0, character = 0\<rparr>)))
     = \<lparr>span_start = 0, span_length = 1\<rparr>"
  using
    hover_text_span [of exampleService exampleThis "exampleContext ''a.ts'' ''<p>''"
      "\<lparr>line = 0, character = 2\<rparr>"
      "\<lparr>hover_contents = PlainString ''<p>'',
        hover_range = Some \<lparr>range_start = \<lparr>line = 0, character = 2\<rparr>,
                            range_end = \<lparr>line = 0, character = 5\<rparr>\<rparr>\<rparr>"]
    hover_text_span [of exampleService exampleThis "exampleContext ''a.ts'' ''<p>''"
      "\<lparr>line = 0, character = 0\<rparr>"
      "\<lparr>hover_contents = PlainString ''<p>'', hover_range = None\<rparr>"]
  by (simp add: example_defs htmlLanguageService_def createVirtualDocument_def Let_def)

section \<open>The virtual document\<close>

text \<open>
  Claim C8. For every template context, the virtual document of
  \<open>createVirtualDocument\<close> reports a line count obtained by splitting the text at the
  letter n (the number of segments plus one) and not at line feeds, and the position and
  offset translation of the bridge never uses this field: it hands every request to the
  \<open>toPosition\<close> and \<open>toOffset\<close> functions of the template context.
\<close>

theorem virtual_document_lineCount:
  "lineCount (createVirtualDocument context)
      = int (length (js_split CHR ''n'' (text' context))) + 1
   \<and> lineCount (createVirtualDocument context) = int (count_list (text' context) CHR ''n'') + 2
   \<and> positionAt (createVirtualDocument context) = toPosition context
   \<and> offsetAt (createVirtualDocument context) = toOffset context
   \<and> positionAt ((createVirtualDocument context)\<lparr>lineCount := k\<rparr>) offset = toPosition context offset
   \<and> offsetAt ((createVirtualDocument context)\<lparr>lineCount := k\<rparr>) p = toOffset context p
   \<and> toVsRange context start end'
       = \<lparr>range_start = toPosition context start, range_end = toPosition context end'\<rparr>
   \<and> toTsSpan context range'
       = \<lparr>span_start = toOffset context (range_start range'),
          span_length = toOffset context (range_end range') - toOffset context (range_start range')\<rparr>"
  by (simp add: createVirtualDocument_def js_split_def length_splitAt toVsRange_def toTsSpan_def
      Let_def)

theorem virtual_document_lineCount_witness:
  "lineCount (createVirtualDocument (exampleContext ''a.ts'' ''banana'')) = 4"
  using virtual_document_lineCount [of "exampleContext ''a.ts'' ''banana''",
      THEN conjunct2, THEN conjunct1]
  by (simp add: exampleContext_def)

section \<open>The two regular expressions\<close>

text \<open>
  What the backtracking matcher returns for \<^verbatim>\<open>/^\s*\n/\<close> is the longest leading
  run, and for \<^verbatim>\<open>/\n\s*$/\<close> the longest trailing run; it returns nothing exactly
  when the text has no such run.
\<close>

lemma isLineFeed_isWhiteSpace: "isLineFeed c \<Longrightarrow> isWhiteSpace c"
  by (simp add: isLineFeed_def isWhiteSpace_def)

lemma isLeadingRun_Nil: "\<not> isLeadingRun run []"
  by (simp add: isLeadingRun_def)

lemma isLeadingRun_Cons:
  "isLeadingRun run (c # s) \<longleftrightarrow>
     isWhiteSpace c \<and> (run = [c] \<and> isLineFeed c \<or> (\<exists>run'. run = c # run' \<and> isLeadingRun run' s))"
  by (cases run) (auto simp: isLeadingRun_def isLineFeed_def)

lemma star_lineFeed_sound:
  "matchHere [GreedyStar isWhiteSpace, OneOf isLineFeed] b s = Some n \<Longrightarrow>
     isLeadingRun (take n s) s"
proof (induction s arbitrary: b n)
  case Nil
  then show ?case by simp
next
  case (Cons c s)
  show ?case
  proof (cases "isWhiteSpace c")
    case True
    show ?thesis
    proof (cases "matchHere [GreedyStar isWhiteSpace, OneOf isLineFeed] False s")
      case None
      with Cons.prems True have "isLineFeed c" "n = 1"
        by (auto split: if_splits)
      with True show ?thesis by (simp add: isLeadingRun_Cons)
    next
      case (Some k)
      with Cons.prems True have "n = Suc k" by simp
      moreover from Some have "isLeadingRun (take k s) s" by (rule Cons.IH)
      ultimately show ?thesis using True by (simp add: isLeadingRun_Cons)
    qed
  next
    case False
    with Cons.prems have "isLineFeed c" by (auto split: if_splits)
    with False show ?thesis by (simp add: isLineFeed_isWhiteSpace)
  qed
qed

lemma star_lineFeed_longest:
  "isLeadingRun run s \<Longrightarrow>
     \<exists>n. matchHere [GreedyStar isWhiteSpace, OneOf isLineFeed] b s = Some n \<and> length run \<le> n"
proof (induction s arbitrary: run b)
  case Nil
  then show ?case by (simp add: isLeadingRun_Nil)
next
  case (Cons c s)
  from Cons.prems have ws: "isWhiteSpace c"
    and alt: "run = [c] \<and> isLineFeed c \<or> (\<exists>run'. run = c # run' \<and> isLeadingRun run' s)"
    by (simp_all add: isLeadingRun_Cons)
  from alt show ?case
  proof
    assume "run = [c] \<and> isLineFeed c"
    with ws show ?thesis
      by (cases "matchHere [GreedyStar isWhiteSpace, OneOf isLineFeed] False s") simp_all
  next
    assume "\<exists>run'. run = c # run' \<and> isLeadingRun run' s"
    then obtain run' where run: "run = c # run'" and "isLeadingRun run' s" by blast
    then obtain k where "matchHere [GreedyStar isWhiteSpace, OneOf isLineFeed] False s = Some k"
      and "length run' \<le> k"
      using Cons.IH by blast
    with ws run show ?thesis by simp
  qed
qed

lemma star_lineFeed_length:
  "matchHere [GreedyStar isWhiteSpace, OneOf isLineFeed] b s = Some n \<Longrightarrow> n \<le> length s"
proof (induction s arbitrary: b n)
  case Nil
  then show ?case by simp
next
  case (Cons c s)
  show ?case
  proof (cases "matchHere [GreedyStar isWhiteSpace, OneOf isLineFeed] False s")
    case None
    with Cons.prems show ?thesis by (auto split: if_splits)
  next
    case (Some k)
    then have "k \<le> length s" by (rule Cons.IH)
    with Some Cons.prems show ?thesis by (auto split: if_splits)
  qed
qed

lemma searchFrom_StartOfInput_later: "searchFrom (StartOfInput # atoms) False s = None"
  by (induction s) simp_all

lemma js_match_leadingRegExp:
  "js_match leadingRegExp s =
     map_option (\<lambda>n. take n s) (matchHere [GreedyStar isWhiteSpace, OneOf isLineFeed] True s)"
  by (cases s) (simp_all add: js_match_def leadingRegExp_def searchFrom_StartOfInput_later
      split: option.splits)

lemma leading_match_is_longest_run:
  "(case js_match leadingRegExp s of
      Some m \<Rightarrow> isLeadingRun m s \<and> (\<forall>run. isLeadingRun run s \<longrightarrow> length run \<le> length m)
    | None \<Rightarrow> (\<forall>run. \<not> isLeadingRun run s))"
proof (cases "matchHere [GreedyStar isWhiteSpace, OneOf isLineFeed] True s")
  case None
  then show ?thesis
    using star_lineFeed_longest [of _ s True] by (auto simp: js_match_leadingRegExp)
next
  case (Some n)
  then have run: "isLeadingRun (take n s) s" by (rule star_lineFeed_sound)
  moreover from Some have "n \<le> length s" by (rule star_lineFeed_length)
  ultimately have "isLeadingRun (take n s) s" "length (take n s) = n" by simp_all
  with Some show ?thesis
    using star_lineFeed_longest [of _ s True] by (auto simp: js_match_leadingRegExp)
qed

lemma star_EndOfInput:
  "matchHere [GreedyStar isWhiteSpace, EndOfInput] b s =
     (if list_all isWhiteSpace s then Some (length s) else None)"
  by (induction s arbitrary: b) simp_all

lemma matchHere_trailingRegExp:
  "matchHere trailingRegExp b s =
     (if s \<noteq> [] \<and> hd s = CHR 0x0A \<and> list_all isWhiteSpace (tl s) then Some (length s) else None)"
  by (cases s) (simp_all add: trailingRegExp_def star_EndOfInput isLineFeed_def)

lemma isTrailingRun_Nil: "\<not> isTrailingRun run []"
  by (simp add: isTrailingRun_def)

lemma isTrailingRun_Cons:
  "isTrailingRun run (c # s) \<longleftrightarrow>
     run = c # s \<and> c = CHR 0x0A \<and> list_all isWhiteSpace s \<or> isTrailingRun run s"
  by (auto simp: isTrailingRun_def suffix_Cons)

lemma isTrailingRun_length: "isTrailingRun run s \<Longrightarrow> length run \<le> length s"
  by (simp add: isTrailingRun_def suffix_length_le)

lemma searchFrom_trailingRegExp:
  "(case searchFrom trailingRegExp b s of
      Some m \<Rightarrow> isTrailingRun m s \<and> (\<forall>run. isTrailingRun run s \<longrightarrow> length run \<le> length m)
    | None \<Rightarrow> (\<forall>run. \<not> isTrailingRun run s))"
proof (induction s arbitrary: b)
  case Nil
  then show ?case by (simp add: matchHere_trailingRegExp isTrailingRun_Nil)
next
  case (Cons c s)
  show ?case
  proof (cases "c = CHR 0x0A \<and> list_all isWhiteSpace s")
    case True
    then have "searchFrom trailingRegExp b (c # s) = Some (c # s)"
      by (simp add: matchHere_trailingRegExp)
    moreover have "isTrailingRun (c # s) (c # s)"
      using True by (simp add: isTrailingRun_Cons)
    ultimately show ?thesis
      using isTrailingRun_length [of _ "c # s"] by simp
  next
    case False
    then have "searchFrom trailingRegExp b (c # s) = searchFrom trailingRegExp False s"
      by (auto simp: matchHere_trailingRegExp)
    with False Cons.IH [of False] show ?thesis
      by (auto simp: isTrailingRun_Cons split: option.splits)
  qed
qed

lemma trailing_match_is_longest_run:
  "(case js_match trailingRegExp s of
      Some m \<Rightarrow> isTrailingRun m s \<and> (\<forall>run. isTrailingRun run s \<longrightarrow> length run \<le> length m)
    | None \<Rightarrow> (\<forall>run. \<not> isTrailingRun run s))"
  unfolding js_match_def by (rule searchFrom_trailingRegExp)

lemmas regexp_defs =
  js_match_def leadingRegExp_def trailingRegExp_def isWhiteSpace_def isLineFeed_def

lemma example_leading: "js_match leadingRegExp ''\<newline><p>x</p>'' = Some ''\<newline>''"
  by (simp add: regexp_defs)

lemma example_trailing: "js_match trailingRegExp ''\<newline><p>x</p>'' = None"
  by (simp add: regexp_defs)

section \<open>Formatting\<close>

lemma getFormattingEditsForRange_disabled:
  "\<not> format_enabled (configuration this) \<Longrightarrow>
     getFormattingEditsForRange gls this context start end' settings = ([], this)"
  by (simp add: getFormattingEditsForRange_def)

lemma getFormattingEditsForRange_enabled:
  assumes "format_enabled (configuration this)"
    and "start1 = start + int (case js_match leadingRegExp (text' context) of
                               Some m \<Rightarrow> length m | None \<Rightarrow> 0)"
    and "end1 = end' - int (case js_match trailingRegExp (text' context) of
                             Some m \<Rightarrow> length m | None \<Rightarrow> 0)"
  shows "getFormattingEditsForRange gls this context start end' settings =
     (if end1 \<le> start1
      then ([], this\<lparr>htmlLanguageServiceField := Some (fst (htmlLanguageService gls this)),
                    serviceCalls := serviceCalls this
                      @ [ParseHTMLDocument (createVirtualDocument context)]\<rparr>)
      else (map (\<lambda>vsedit. \<lparr>change_span = toTsSpan context (edit_range vsedit),
                            change_newText = edit_newText vsedit\<rparr>)
              (format (fst (htmlLanguageService gls this)) (createVirtualDocument context)
                 (toVsRange context start1 end1) (formatOptions settings)),
            this\<lparr>htmlLanguageServiceField := Some (fst (htmlLanguageService gls this)),
                 serviceCalls := serviceCalls this
                   @ [ParseHTMLDocument (createVirtualDocument context),
                      Format (createVirtualDocument context) (toVsRange context start1 end1)
                        (formatOptions settings)]\<rparr>))"
  using assms
  by (simp add: getFormattingEditsForRange_def htmlLanguageService_def recordCall_def Let_def
      split: option.splits)

text \<open>
  Claim C4. \<open>getFormattingEditsForRange\<close> returns the empty edit sequence, without
  calling the delegated formatter, whenever the configuration flag \<open>format.enabled\<close>
  is false, and also whenever \<open>end \<le> start\<close> holds after the adjustments at the two
  boundaries of the text. With formatting disabled the bridge makes no delegated call at
  all; with a degenerate range the only delegated call is the parse of the document.
\<close>

theorem formatting_noop:
  "(\<not> format_enabled (configuration this) \<longrightarrow>
      getFormattingEditsForRange gls this context start end' settings = ([], this))
   \<and> (format_enabled (configuration this)
        \<and> end' - int (case js_match trailingRegExp (text' context) of
                        Some m \<Rightarrow> length m | None \<Rightarrow> 0)
           \<le> start + int (case js_match leadingRegExp (text' context) of
                            Some m \<Rightarrow> length m | None \<Rightarrow> 0) \<longrightarrow>
       fst (getFormattingEditsForRange gls this context start end' settings) = []
       \<and> serviceCalls (snd (getFormattingEditsForRange gls this context start end' settings))
           = serviceCalls this @ [ParseHTMLDocument (createVirtualDocument context)])"
  by (simp add: getFormattingEditsForRange_disabled
      getFormattingEditsForRange_enabled [OF _ refl refl])

theorem formatting_noop_witness:
  "getFormattingEditsForRange exampleService exampleDisabled
       (exampleContext ''a.ts'' ''<p>x</p>'') 0 8 exampleSettings = ([], exampleDisabled)
   \<and> fst (getFormattingEditsForRange exampleService exampleThis
         (exampleContext ''a.ts'' ''\<newline><p>x</p>'') 0 1 exampleSettings) = []
   \<and> serviceCalls (snd (getFormattingEditsForRange exampleService exampleThis
         (exampleContext ''a.ts'' ''\<newline><p>x</p>'') 0 1 exampleSettings))
       = [ParseHTMLDocument (createVirtualDocument (exampleContext ''a.ts'' ''\<newline><p>x</p>''))]"
  using
    formatting_noop [of exampleDisabled exampleService "exampleContext ''a.ts'' ''<p>x</p>''"
      0 8 exampleSettings]
    formatting_noop [of exampleThis exampleService
      "exampleContext ''a.ts'' ''\<newline><p>x</p>''" 0 1 exampleSettings]
    example_leading example_trailing
  by (simp add: exampleThis_def exampleDisabled_def newHtmlTemplateLanguageService_def
      exampleContext_def)

text \<open>
  Claim C5. Before \<open>getFormattingEditsForRange\<close> calls the delegated formatter,
  \<open>start\<close> is advanced by the length of the leading run of white space ending in a
  line feed at the very beginning of the template text, when there is one, and \<open>end\<close>
  is moved back by the length of the trailing run of a line feed followed by white space
  at the very end, when there is one; the formatter receives the positions of the adjusted
  offsets. For the text of a line feed followed by \<^verbatim>\<open><p>x</p>\<close> and
  \<open>start = 0\<close>, the effective start is 1, past the leading line feed.
\<close>

theorem formatting_boundary_adjustment:
  assumes "format_enabled (configuration this)"
    and "leading = js_match leadingRegExp (text' context)"
    and "trailing = js_match trailingRegExp (text' context)"
    and "start1 = start + int (case leading of Some m \<Rightarrow> length m | None \<Rightarrow> 0)"
    and "end1 = end' - int (case trailing of Some m \<Rightarrow> length m | None \<Rightarrow> 0)"
    and "start1 < end1"
  shows "fst (getFormattingEditsForRange gls this context start end' settings)
      = map (\<lambda>vsedit. \<lparr>change_span = toTsSpan context (edit_range vsedit),
                         change_newText = edit_newText vsedit\<rparr>)
          (format (fst (htmlLanguageService gls this)) (createVirtualDocument context)
             \<lparr>range_start = toPosition context start1, range_end = toPosition context end1\<rparr>
             (formatOptions settings))
    \<and> serviceCalls (snd (getFormattingEditsForRange gls this context start end' settings))
      = serviceCalls this
          @ [ParseHTMLDocument (createVirtualDocument context),
             Format (createVirtualDocument context)
               \<lparr>range_start = toPosition context start1, range_end = toPosition context end1\<rparr>
               (formatOptions settings)]
    \<and> (case leading of
          Some m \<Rightarrow> isLeadingRun m (text' context)
            \<and> (\<forall>run. isLeadingRun run (text' context) \<longrightarrow> length run \<le> length m)
        | None \<Rightarrow> (\<forall>run. \<not> isLeadingRun run (text' context)))
    \<and> (case trailing of
          Some m \<Rightarrow> isTrailingRun m (text' context)
            \<and> (\<forall>run. isTrailingRun run (text' context) \<longrightarrow> length run \<le> length m)
        | None \<Rightarrow> (\<forall>run. \<not> isTrailingRun run (text' context)))
    \<and> js_match leadingRegExp ''\<newline><p>x</p>'' = Some ''\<newline>''"
proof -
  have "getFormattingEditsForRange gls this context start end' settings =
      (map (\<lambda>vsedit. \<lparr>change_span = toTsSpan context (edit_range vsedit),
                        change_newText = edit_newText vsedit\<rparr>)
         (format (fst (htmlLanguageService gls this)) (createVirtualDocument context)
            (toVsRange context start1 end1) (formatOptions settings)),
       this\<lparr>htmlLanguageServiceField := Some (fst (htmlLanguageService gls this)),
            serviceCalls := serviceCalls this
              @ [ParseHTMLDocument (createVirtualDocument context),
                 Format (createVirtualDocument context) (toVsRange context start1 end1)
                   (formatOptions settings)]\<rparr>)"
    using assms getFormattingEditsForRange_enabled [of "this" start1 start "context" end1 end']
    by simp
  then show ?thesis
    using leading_match_is_longest_run [of "text' context"]
      trailing_match_is_longest_run [of "text' context"] assms(2,3)
    by (simp add: toVsRange_def example_leading)
qed

theorem formatting_boundary_adjustment_witness:
  "js_match leadingRegExp ''\<newline><p>x</p>'' = Some ''\<newline>''
   \<and> js_match trailingRegExp ''\<newline><p>x</p>'' = None
   \<and> isLeadingRun ''\<newline>'' ''\<newline><p>x</p>''
   \<and> serviceCalls (snd (getFormattingEditsForRange exampleService exampleThis
         (exampleContext ''a.ts'' ''\<newline><p>x</p>'') 0 9 exampleSettings))
       = [ParseHTMLDocument (createVirtualDocument (exampleContext ''a.ts'' ''\<newline><p>x</p>'')),
          Format (createVirtualDocument (exampleContext ''a.ts'' ''\<newline><p>x</p>''))
            \<lparr>range_start = \<lparr>line = 0, character = 1\<rparr>, range_end = \<lparr>line = 0, character = 9\<rparr>\<rparr>
            (formatOptions exampleSettings)]
   \<and> fst (getFormattingEditsForRange exampleService exampleThis
         (exampleContext ''a.ts'' ''\<newline><p>x</p>'') 0 9 exampleSettings)
       = [\<lparr>change_span = \<lparr>span_start = 1, span_length = 8\<rparr>, change_newText = ''<p>x</p>''\<rparr>]"
  using
    formatting_boundary_adjustment [of exampleThis "Some ''\<newline>''"
      "exampleContext ''a.ts'' ''\<newline><p>x</p>''" None 1 0 9 9 exampleService exampleSettings]
    example_leading example_trailing
  by (simp add: exampleThis_def newHtmlTemplateLanguageService_def exampleContext_def
      exampleService_def htmlLanguageService_def toTsSpan_def)

section \<open>Cache correctness\<close>

lemma getCached_updateCached:
  "getCached (updateCached cache context1 position1 result) context2 position2 =
     (if fileName context2 = fileName context1 \<and> arePositionsEqual position2 position1
         \<and> text' context2 = text' context1
      then Some result else None)"
  by (simp add: getCached_def updateCached_def)

lemma getCached_other_request:
  assumes "getCached cache context1 position1 = Some result"
  shows "getCached cache context2 position2 =
     (if fileName context2 = fileName context1 \<and> arePositionsEqual position2 position1
         \<and> text' context2 = text' context1
      then Some result else None)"
proof -
  from assms obtain p where "completions cache = Some result"
    and "cachedCompletionsFile cache = Some (fileName context1)"
    and "cachedCompletionsPosition cache = Some p"
    and "arePositionsEqual position1 p"
    and "cachedCompletionsContent cache = Some (text' context1)"
    by (auto simp: getCached_Some_iff)
  then show ?thesis
    by (auto simp: getCached_def arePositionsEqual_def)
qed

lemma getCached_after_getCompletionItems:
  assumes "getCompletionItems gls this context1 position1 = (result1, this1)"
  shows "getCached (completionsCache this1) context2 position2 =
     (if fileName context2 = fileName context1 \<and> arePositionsEqual position2 position1
         \<and> text' context2 = text' context1
      then Some result1 else None)"
proof (cases "getCached (completionsCache this) context1 position1")
  case None
  from assms show ?thesis
    unfolding getCompletionItems_miss [OF None]
    by (auto simp: getCached_updateCached)
next
  case (Some cached)
  from assms have "result1 = cached" "this1 = this"
    unfolding getCompletionItems_hit [OF Some] by simp_all
  with Some show ?thesis
    by (simp add: getCached_other_request)
qed

text \<open>
  Claim C1. Take two consecutive completion requests (\<open>getCompletionsAtPosition\<close> or
  \<open>getCompletionEntryDetails\<close>, both of which start with \<open>getCompletionItems\<close>)
  with the same file name, position and text. The second request returns a completion
  result equal to that of the first and makes no delegated call: the bridge object,
  the record of delegated calls included, is unchanged. A request that differs in one
  of the three key fields is computed afresh by delegated calls. The delegated service
  is a function of its arguments, so the equality of results is equality of values
  (deep equality); a miss calls \<open>doComplete\<close> twice with the same arguments.
\<close>

theorem completions_cache_correct:
  assumes "getCompletionItems gls this context1 position1 = (result1, this1)"
  shows "getCompletionsAtPosition gls this context1 position1
      = (translateCompletionItemsToCompletionInfo result1, this1)
    \<and> snd (getCompletionEntryDetails gls this context1 position1 name1) = this1
    \<and> (fileName context2 = fileName context1
        \<and> line position2 = line position1 \<and> character position2 = character position1
        \<and> text' context2 = text' context1 \<longrightarrow>
          getCompletionItems gls this1 context2 position2 = (result1, this1)
          \<and> getCompletionsAtPosition gls this1 context2 position2
              = (translateCompletionItemsToCompletionInfo result1, this1)
          \<and> snd (getCompletionEntryDetails gls this1 context2 position2 name2) = this1)
    \<and> (fileName context2 \<noteq> fileName context1
        \<or> \<not> (line position2 = line position1 \<and> character position2 = character position1)
        \<or> text' context2 \<noteq> text' context1 \<longrightarrow>
          fst (getCompletionItems gls this1 context2 position2)
            = doComplete (fst (htmlLanguageService gls this1)) (createVirtualDocument context2)
                position2
                (parseHTMLDocument (fst (htmlLanguageService gls this1))
                   (createVirtualDocument context2))
          \<and> serviceCalls (snd (getCompletionItems gls this1 context2 position2))
            = serviceCalls this1
                @ [ParseHTMLDocument (createVirtualDocument context2),
                   DoComplete (createVirtualDocument context2) position2
                     (parseHTMLDocument (fst (htmlLanguageService gls this1))
                        (createVirtualDocument context2)),
                   DoComplete (createVirtualDocument context2) position2
                     (parseHTMLDocument (fst (htmlLanguageService gls this1))
                        (createVirtualDocument context2))])"
proof -
  note lookup = getCached_after_getCompletionItems [OF assms, of context2 position2]
  have first: "getCompletionsAtPosition gls this context1 position1
      = (translateCompletionItemsToCompletionInfo result1, this1)"
    "snd (getCompletionEntryDetails gls this context1 position1 name1) = this1"
    using assms by (simp_all add: getCompletionsAtPosition_eq getCompletionEntryDetails_eq)
  have same: "getCompletionItems gls this1 context2 position2 = (result1, this1)"
    if "fileName context2 = fileName context1"
      "line position2 = line position1 \<and> character position2 = character position1"
      "text' context2 = text' context1"
    using that lookup by (simp add: arePositionsEqual_def getCompletionItems_hit)
  have changed: "getCached (completionsCache this1) context2 position2 = None"
    if "fileName context2 \<noteq> fileName context1
        \<or> \<not> (line position2 = line position1 \<and> character position2 = character position1)
        \<or> text' context2 \<noteq> text' context1"
    using that lookup by (auto simp: arePositionsEqual_def)
  show ?thesis
    using first same getCompletionItems_miss [OF changed, of gls]
    by (auto simp: getCompletionsAtPosition_eq getCompletionEntryDetails_eq)
qed


theorem completions_cache_correct_witness:
  "getCompletionItems exampleService
       (snd (getCompletionItems exampleService exampleThis (exampleContext ''a.ts'' ''<p>'')
               \<lparr>line = 0, character = 1\<rparr>))
       (exampleContext ''a.ts'' ''<p>'') \<lparr>line = 0, character = 1\<rparr>
     = getCompletionItems exampleService exampleThis (exampleContext ''a.ts'' ''<p>'')
         \<lparr>line = 0, character = 1\<rparr>
   \<and> serviceCalls (snd (getCompletionItems exampleService exampleThis
         (exampleContext ''a.ts'' ''<p>'') \<lparr>line = 0, character = 1\<rparr>))
     = [ParseHTMLDocument (createVirtualDocument (exampleContext ''a.ts'' ''<p>'')),
        DoComplete (createVirtualDocument (exampleContext ''a.ts'' ''<p>''))
          \<lparr>line = 0, character = 1\<rparr> ''<p>'',
        DoComplete (createVirtualDocument (exampleContext ''a.ts'' ''<p>''))
          \<lparr>line = 0, character = 1\<rparr> ''<p>'']
   \<and> serviceCalls (snd (getCompletionItems exampleService
         (snd (getCompletionItems exampleService exampleThis (exampleContext ''a.ts'' ''<p>'')
                 \<lparr>line = 0, character = 1\<rparr>))
         (exampleContext ''a.ts'' ''<p>x'') \<lparr>line = 0, character = 1\<rparr>))
     = [ParseHTMLDocument (createVirtualDocument (exampleContext ''a.ts'' ''<p>'')),
        DoComplete (createVirtualDocument (exampleContext ''a.ts'' ''<p>''))
          \<lparr>line = 0, character = 1\<rparr> ''<p>'',
        DoComplete (createVirtualDocument (exampleContext ''a.ts'' ''<p>''))
          \<lparr>line = 0, character = 1\<rparr> ''<p>'',
        ParseHTMLDocument (createVirtualDocument (exampleContext ''a.ts'' ''<p>x'')),
        DoComplete (createVirtualDocument (exampleContext ''a.ts'' ''<p>x''))
          \<lparr>line = 0, character = 1\<rparr> ''<p>x'',
        DoComplete (createVirtualDocument (exampleContext ''a.ts'' ''<p>x''))
          \<lparr>line = 0, character = 1\<rparr> ''<p>x'']"
proof -
  have calls: "serviceCalls (snd (getCompletionItems exampleService exampleThis
         (exampleContext ''a.ts'' ''<p>'') \<lparr>line = 0, character = 1\<rparr>))
     = [ParseHTMLDocument (createVirtualDocument (exampleContext ''a.ts'' ''<p>'')),
        DoComplete (createVirtualDocument (exampleContext ''a.ts'' ''<p>''))
          \<lparr>line = 0, character = 1\<rparr> ''<p>'',
        DoComplete (createVirtualDocument (exampleContext ''a.ts'' ''<p>''))
          \<lparr>line = 0, character = 1\<rparr> ''<p>'']"
    by (simp add: example_defs facade_defs Let_def)
  have service: "fst (htmlLanguageService exampleService
      (snd (getCompletionItems exampleService exampleThis
         (exampleContext ''a.ts'' ''<p>'') \<lparr>line = 0, character = 1\<rparr>))) = exampleService"
    by (simp add: exampleThis_def newHtmlTemplateLanguageService_def emptyCompletionsCache_def
        facade_defs Let_def)
  have parsed: "parseHTMLDocument exampleService
      (createVirtualDocument (exampleContext ''a.ts'' ''<p>x'')) = ''<p>x''"
    by (simp add: exampleService_def exampleContext_def createVirtualDocument_def Let_def)
  show ?thesis
    using
      completions_cache_correct [OF prod.collapse [symmetric],
        of exampleService exampleThis "exampleContext ''a.ts'' ''<p>''"
          "\<lparr>line = 0, character = 1\<rparr>" _ "exampleContext ''a.ts'' ''<p>''"
          "\<lparr>line = 0, character = 1\<rparr>"]
      completions_cache_correct [OF prod.collapse [symmetric],
        of exampleService exampleThis "exampleContext ''a.ts'' ''<p>''"
          "\<lparr>line = 0, character = 1\<rparr>" _ "exampleContext ''a.ts'' ''<p>x''"
          "\<lparr>line = 0, character = 1\<rparr>"]
    by (simp add: calls service parsed) (simp add: exampleContext_def)
qed


end
